theory Spec2Isabelle
  imports Complex_Main "HOL-Library.Product_Lexorder" "HOL-Library.Option_ord"
begin

section \<open>Engine scores\<close>

text \<open>
  The scores of \<^verbatim>\<open>chess.engine\<close>: \<^verbatim>\<open>Cp(n)\<close>, \<^verbatim>\<open>Mate(n)\<close> and the singleton
  \<^verbatim>\<open>MateGiven\<close>.  The library compares two scores by comparing their
  \<^verbatim>\<open>_score_tuple()\<close>, a Python tuple
  \<^verbatim>\<open>(isinstance(self, MateGivenType), mate is not None and mate > 0, mate is None,
  -(mate or 0), self.score())\<close>, lexicographically, with \<^verbatim>\<open>False < True\<close>.
  The last component is \<^verbatim>\<open>None\<close> for both mate kinds and is reached only
  between two centipawn scores or two equal tuples.
\<close>

datatype score = Cp int | Mate int | MateGiven

fun mate :: "score \<Rightarrow> int option" where
  "mate (Cp c) = None"
| "mate (Mate m) = Some m"
| "mate MateGiven = Some 0"

text \<open>\<^verbatim>\<open>Score.score()\<close> with the default \<^verbatim>\<open>mate_score=None\<close>.\<close>

fun score_cp :: "score \<Rightarrow> int option" where
  "score_cp (Cp c) = Some c"
| "score_cp (Mate m) = None"
| "score_cp MateGiven = None"

definition score_tuple :: "score \<Rightarrow> bool \<times> bool \<times> bool \<times> int \<times> int option" where
  "score_tuple s =
     (s = MateGiven,
      (case mate s of None \<Rightarrow> False | Some m \<Rightarrow> m > 0),
      mate s = None,
      - (case mate s of None \<Rightarrow> 0 | Some m \<Rightarrow> m),
      score_cp s)"

definition score_lt :: "score \<Rightarrow> score \<Rightarrow> bool" where
  "score_lt a b \<longleftrightarrow> score_tuple a < score_tuple b"

definition score_le :: "score \<Rightarrow> score \<Rightarrow> bool" where
  "score_le a b \<longleftrightarrow> score_tuple a \<le> score_tuple b"

definition score_gt :: "score \<Rightarrow> score \<Rightarrow> bool" where
  "score_gt a b \<longleftrightarrow> score_tuple a > score_tuple b"

definition score_ge :: "score \<Rightarrow> score \<Rightarrow> bool" where
  "score_ge a b \<longleftrightarrow> score_tuple a \<ge> score_tuple b"

text \<open>\<^verbatim>\<open>__neg__\<close>: a centipawn score changes sign, \<^verbatim>\<open>Mate(0)\<close> and
  \<^verbatim>\<open>MateGiven\<close> are each other's negation.\<close>

fun neg :: "score \<Rightarrow> score" where
  "neg (Cp c) = Cp (- c)"
| "neg (Mate m) = (if m = 0 then MateGiven else Mate (- m))"
| "neg MateGiven = Mate 0"

text \<open>\<^verbatim>\<open>mate_soon = Mate(15)\<close>\<close>

definition mate_soon :: score where
  "mate_soon = Mate 15"

text \<open>A \<^verbatim>\<open>PovScore\<close>: a score relative to the side \<open>pov_turn\<close>
  (\<open>True\<close> is white, as \<^verbatim>\<open>chess.Color\<close> is \<^verbatim>\<open>bool\<close>).\<close>

record povscore =
  relative :: score
  pov_turn :: bool

definition pov :: "povscore \<Rightarrow> bool \<Rightarrow> score" where
  "pov ps color = (if pov_turn ps = color then relative ps else neg (relative ps))"

section \<open>Python floats\<close>

text \<open>
  A finite double is the real number it stands for, so a comparison of two floats is the
  comparison of two reals.  Addition is not the sum of the reals: CPython adds two floats
  as IEEE 754 doubles, that is, the exact sum rounded to the nearest number with a mantissa
  of 53 bits, a tie going to the even mantissa.  A decimal literal such as \<^verbatim>\<open>0.7\<close> is the
  double nearest to it.  Infinities and NaN are not modelled: win chances lie between
  \<open>-1\<close> and \<open>1\<close>.
\<close>

definition pow2 :: "int \<Rightarrow> real" where
  "pow2 k = (if 0 \<le> k then 2 ^ nat k else 1 / 2 ^ nat (- k))"

text \<open>The exponent \<open>e\<close> with \<open>2 ^ e \<le> x < 2 ^ (e + 1)\<close> of a positive number, found by
  halving or doubling it, at most as often as the first argument says.\<close>

fun binade :: "nat \<Rightarrow> real \<Rightarrow> int" where
  "binade 0 x = 0"
| "binade (Suc k) x =
     (if 2 \<le> x then binade k (x / 2) + 1
      else if x < 1 then binade k (2 * x) - 1
      else 0)"

text \<open>Rounding to the nearest double.  The unit in the last place is \<open>2 ^ (e - 52)\<close>; below
  the smallest normal number it stays that of the exponent \<open>-1022\<close>.  2200 steps reach the
  exponent of every number in the range of the doubles.\<close>

definition round_to_double :: "real \<Rightarrow> real" where
  "round_to_double x =
     (if x = 0 then 0
      else
        (let e = max (binade 2200 \<bar>x\<bar>) (- 1022);
             u = pow2 (e - 52);
             q = \<bar>x\<bar> / u;
             f = \<lfloor>q\<rfloor>;
             m = (if q - of_int f < 1 / 2 then f
                  else if 1 / 2 < q - of_int f then f + 1
                  else if even f then f else f + 1)
         in sgn x * of_int m * u))"

definition float_add :: "real \<Rightarrow> real \<Rightarrow> real" where
  "float_add x y = round_to_double (x + y)"

section \<open>Data model\<close>

text \<open>\<^verbatim>\<open>model.EngineMove\<close> and \<^verbatim>\<open>model.NextMovePair\<close>; a move is an opaque value
  of the rules library, a node is the address of a \<^verbatim>\<open>ChildNode\<close> object.\<close>

type_synonym addr = nat

record 'm EngineMove =
  move :: 'm
  score :: score

record 'm NextMovePair =
  node :: addr
  winner :: bool
  best :: "'m EngineMove"
  second :: "'m EngineMove option"

text \<open>\<^verbatim>\<open>model.Puzzle(node, moves, cp)\<close>\<close>

record 'm Puzzle =
  puzzle_node :: addr
  puzzle_moves :: "'m list"
  puzzle_cp :: int

text \<open>\<^verbatim>\<open>Union[Puzzle, Score]\<close>, the result of \<^verbatim>\<open>analyze_position\<close>.\<close>

datatype 'm analysis = IsPuzzle "'m Puzzle" | IsScore score

text \<open>The exceptions the modelled code can raise: the index error of \<^verbatim>\<open>solution[-1]\<close> on
  an empty list, the interpreter's recursion limit in the two recursive cookers, and the
  lookup of a global name that has no binding.\<close>

datatype error = IndexError | RecursionError | NameError

subsection \<open>The store of game-tree nodes\<close>

text \<open>
  Nodes are mutable objects shared by reference, so they live in a store.  A cell holds what
  the code reads from or writes to a \<^verbatim>\<open>ChildNode\<close>: its move, the evaluation parsed
  from its comment (\<^verbatim>\<open>node.eval()\<close>), its list of child nodes (\<^verbatim>\<open>node.variations\<close>), and
  the position \<^verbatim>\<open>node.board()\<close>.  The library rebuilds that board from the moves on the
  path from the root; no code here reassigns a parent or a move, so it is fixed when the node
  is created and the cell keeps it as the stack of moves played from the game's initial
  position.  \<open>store_size\<close> is the number of allocated cells; a fresh object gets that address.
  The root \<^verbatim>\<open>Game\<close> object is never written to and has no cell.
\<close>

record 'm gnode =
  gn_move :: 'm
  gn_eval :: "povscore option"
  gn_variations :: "addr list"
  gn_board :: "'m list"

record 'm store =
  cells :: "addr \<Rightarrow> 'm gnode"
  store_size :: nat

text \<open>\<^verbatim>\<open>node.add_main_variation(move)\<close>: a new child (empty comment, no children) is
  created and put first in the parent's variations.\<close>

definition add_main_variation :: "'m store \<Rightarrow> addr \<Rightarrow> 'm \<Rightarrow> 'm store \<times> addr" where
  "add_main_variation s n mv =
     (let c = store_size s;
          child = \<lparr>gn_move = mv, gn_eval = None, gn_variations = [],
                   gn_board = gn_board (cells s n) @ [mv]\<rparr>;
          parent = (cells s n)\<lparr>gn_variations := c # gn_variations (cells s n)\<rparr>
      in (\<lparr>cells = ((cells s)(n := parent))(c := child), store_size = Suc c\<rparr>, c))"

text \<open>\<^verbatim>\<open>copy.deepcopy(node)\<close> copies every object reachable from the node, which through
  parents and variations is its whole game tree, and returns the copy of the node.  The model
  copies all allocated cells to fresh addresses, shifting the addresses they hold.  The
  depth of the library's own recursion over a long game, for which \<^verbatim>\<open>main\<close> raises the
  interpreter's limit, is not modelled.\<close>

definition deepcopy :: "'m store \<Rightarrow> addr \<Rightarrow> 'm store \<times> addr" where
  "deepcopy s n =
     (let k = store_size s
      in (\<lparr>cells = (\<lambda>a. if k \<le> a \<and> a < 2 * k
                         then (cells s (a - k))\<lparr>gn_variations := map (\<lambda>v. v + k) (gn_variations (cells s (a - k)))\<rparr>
                         else cells s a),
           store_size = 2 * k\<rparr>, n + k))"

subsection \<open>The collaborators\<close>

text \<open>
  The rules library, the engine, the helpers of \<^verbatim>\<open>util\<close> and the server are outside the
  source file; the model takes them as a record of functions.  A position is the stack of
  moves from the game's initial position (repetition depends on it).  The engine answers as a
  function of the position: \<open>top_two\<close> is what \<^verbatim>\<open>get_next_move_pair\<close> extracts from
  \<^verbatim>\<open>engine.analyse(board, multipv = 2, limit = pair_limit)\<close> for a favoured colour,
  \<open>analyse b n\<close> is the list of scores of \<^verbatim>\<open>engine.analyse(b, multipv = n, limit = pair_limit)\<close>,
  \<open>play b\<close> is the move of \<^verbatim>\<open>engine.play(b, limit = mate_defense_limit)\<close>, with \<open>None\<close>
  for a result that is false in a boolean context.  The server has a state of type \<open>'s\<close>;
  \<open>is_seen_pos\<close> is asked about the position of a node and \<open>set_seen\<close> marks the game
  under analysis.  Win chances are Python floats.
\<close>

record ('m, 's) env =
  win_chances :: "score \<Rightarrow> real"
  top_two :: "'m list \<Rightarrow> bool \<Rightarrow> 'm EngineMove \<times> 'm EngineMove option"
  analyse :: "'m list \<Rightarrow> nat \<Rightarrow> povscore list"
  play :: "'m list \<Rightarrow> 'm option"
  is_game_over :: "'m list \<Rightarrow> bool"
  turn :: "'m list \<Rightarrow> bool"
  is_repetition :: "'m list \<Rightarrow> nat \<Rightarrow> bool"
  legal_moves_count :: "'m list \<Rightarrow> nat"
  is_irreversible :: "'m list \<Rightarrow> 'm \<Rightarrow> bool"
  epd :: "'m list \<Rightarrow> string"
  castling_rights :: "'m list \<Rightarrow> nat"
  is_up_in_material :: "'m list \<Rightarrow> bool \<Rightarrow> bool"
  material_diff :: "'m list \<Rightarrow> bool \<Rightarrow> int"
  is_seen_pos :: "'s \<Rightarrow> 'm list \<Rightarrow> bool"
  set_seen :: "'s \<Rightarrow> 's"

text \<open>The global name \<^verbatim>\<open>maximum_castling_rights\<close> of the module.  \<^verbatim>\<open>analyze_game\<close> calls
  it in its castling test, but the source file neither defines nor imports it (the import
  from \<^verbatim>\<open>util\<close> lists five other names), so the name has no binding and its lookup raises
  \<^verbatim>\<open>NameError\<close>.\<close>

definition maximum_castling_rights :: "('m list \<Rightarrow> nat) option" where
  "maximum_castling_rights = None"

text \<open>Modelled from the spec: \<^verbatim>\<open>util.get_next_move_pair\<close> is not in the source file.
  It packages the best and, if present, the second ranked line at the node's position into a
  pair for the favoured colour.\<close>

definition get_next_move_pair :: "('m, 's) env \<Rightarrow> 'm store \<Rightarrow> addr \<Rightarrow> bool \<Rightarrow> 'm NextMovePair" where
  "get_next_move_pair env s n w =
     \<lparr>node = n, winner = w,
      best = fst (top_two env (gn_board (cells s n)) w),
      second = snd (top_two env (gn_board (cells s n)) w)\<rparr>"

section \<open>The generator\<close>

text \<open>The \<^verbatim>\<open>for\<close> loop of \<^verbatim>\<open>is_valid_mate_in_one\<close> over the scores of the ranked lines:
  it returns \<^verbatim>\<open>False\<close> at the first score below \<^verbatim>\<open>Mate(1)\<close> whose win chance is above
  the threshold, and \<^verbatim>\<open>True\<close> when the list is exhausted.\<close>

fun no_good_non_mate :: "('m, 's) env \<Rightarrow> score list \<Rightarrow> bool" where
  "no_good_non_mate env [] = True"
| "no_good_non_mate env (sc # scs) =
     (if score_lt sc (Mate 1) \<and> win_chances env sc > 0.6 then False
      else no_good_non_mate env scs)"

definition is_valid_mate_in_one :: "('m, 's) env \<Rightarrow> 'm store \<Rightarrow> 'm NextMovePair \<Rightarrow> bool" where
  "is_valid_mate_in_one env s pair =
     (if score (best pair) \<noteq> Mate 1 then False
      else
        (case second pair of
           None \<Rightarrow> True
         | Some snd_line \<Rightarrow>
             if win_chances env (score snd_line) \<le> 0.6 then True
             else if score snd_line = Mate 1 then
               no_good_non_mate env
                 (map (\<lambda>pv. pov pv (winner pair))
                    (analyse env (gn_board (cells s (node pair))) 5))
             else False))"

definition is_valid_attack :: "('m, 's) env \<Rightarrow> 'm store \<Rightarrow> 'm NextMovePair \<Rightarrow> bool" where
  "is_valid_attack env s pair =
     (case second pair of
        None \<Rightarrow> True
      | Some snd_line \<Rightarrow>
          is_valid_mate_in_one env s pair \<or>
          win_chances env (score (best pair)) >
            float_add (win_chances env (score snd_line)) (round_to_double 0.7))"

definition get_next_pair :: "('m, 's) env \<Rightarrow> 'm store \<Rightarrow> addr \<Rightarrow> bool \<Rightarrow> 'm NextMovePair option" where
  "get_next_pair env s n w =
     (let pair = get_next_move_pair env s n w
      in if turn env (gn_board (cells s n)) = w \<and> \<not> is_valid_attack env s pair then None
         else Some pair)"

definition get_next_move :: "('m, 's) env \<Rightarrow> 'm store \<Rightarrow> addr \<Rightarrow> 'm option" where
  "get_next_move env s n = play env (gn_board (cells s n))"

text \<open>The recursion of the two cookers has no bound of its own; Python stops it with a
  \<^verbatim>\<open>RecursionError\<close> when the interpreter's limit is reached.  The first argument is the
  number of nested calls still allowed.  A cooker returns the store as it has changed it,
  also when it fails.\<close>

fun cook_mate :: "nat \<Rightarrow> ('m, 's) env \<Rightarrow> 'm store \<Rightarrow> addr \<Rightarrow> bool \<Rightarrow>
    (error + 'm list option) \<times> 'm store" where
  "cook_mate 0 env s n w = (Inl RecursionError, s)"
| "cook_mate (Suc depth) env s n w =
     (let board = gn_board (cells s n) in
      if is_game_over env board then (Inr (Some []), s)
      else
        (case (if turn env board = w
               then (case get_next_pair env s n w of
                       None \<Rightarrow> None
                     | Some pair \<Rightarrow>
                         if score_lt (score (best pair)) mate_soon then None
                         else Some (move (best pair)))
               else get_next_move env s n) of
           None \<Rightarrow> (Inr None, s)
         | Some mv \<Rightarrow>
             (case add_main_variation s n mv of
                (s1, child) \<Rightarrow>
                  (case cook_mate depth env s1 child w of
                     (Inl e, s2) \<Rightarrow> (Inl e, s2)
                   | (Inr None, s2) \<Rightarrow> (Inr None, s2)
                   | (Inr (Some follow_up), s2) \<Rightarrow> (Inr (Some (mv # follow_up)), s2)))))"

fun cook_advantage :: "nat \<Rightarrow> ('m, 's) env \<Rightarrow> 'm store \<Rightarrow> addr \<Rightarrow> bool \<Rightarrow>
    (error + 'm NextMovePair list option) \<times> 'm store" where
  "cook_advantage 0 env s n w = (Inl RecursionError, s)"
| "cook_advantage (Suc depth) env s n w =
     (let board = gn_board (cells s n) in
      if is_repetition env board 2 then (Inr None, s)
      else
        (case get_next_pair env s n w of
           None \<Rightarrow> (Inr (Some []), s)
         | Some pair \<Rightarrow>
             if score_lt (score (best pair)) (Cp 200) then (Inr None, s)
             else
               (case add_main_variation s n (move (best pair)) of
                  (s1, child) \<Rightarrow>
                    (case cook_advantage depth env s1 child w of
                       (Inl e, s2) \<Rightarrow> (Inl e, s2)
                     | (Inr None, s2) \<Rightarrow> (Inr None, s2)
                     | (Inr (Some follow_up), s2) \<Rightarrow> (Inr (Some (pair # follow_up)), s2)))))"

text \<open>The trimming loop of \<^verbatim>\<open>analyze_position\<close>:
  \<^verbatim>\<open>while len(solution) % 2 == 0 or not solution[-1].second: solution = solution[:-1]\<close>.
  The test on the length comes first, so on the empty list the loop body is entered and its
  \<^verbatim>\<open>solution[-1]\<close> raises.\<close>

function trim_solution :: "'m NextMovePair list \<Rightarrow> error + 'm NextMovePair list" where
  "trim_solution solution =
     (if even (length solution) \<or> second (last solution) = None
      then (if solution = [] then Inl IndexError else trim_solution (butlast solution))
      else Inr solution)"
  by pat_completeness auto
termination
  by (relation "measure length") auto

declare trim_solution.simps [simp del]

text \<open>\<^verbatim>\<open>analyze_position\<close> returns its result with the store and the server state it
  leaves behind.  An exception of a cooker leaves the function before \<^verbatim>\<open>set_seen\<close>.\<close>

definition analyze_position :: "nat \<Rightarrow> ('m, 's) env \<Rightarrow> int \<Rightarrow> 'm store \<Rightarrow> 's \<Rightarrow> addr \<Rightarrow>
    score \<Rightarrow> povscore \<Rightarrow> (error + 'm analysis) \<times> 'm store \<times> 's" where
  "analyze_position depth env tier s sv n prev_score current_eval =
     (let board = gn_board (cells s n);
          w = turn env board;
          sc = pov current_eval w
      in
      if legal_moves_count env board < 2 then (Inr (IsScore sc), s, sv)
      else if score_gt prev_score (Cp 300) \<and> score_lt sc mate_soon then (Inr (IsScore sc), s, sv)
      else if is_up_in_material env board w then (Inr (IsScore sc), s, sv)
      else if score_ge sc (Mate 1) \<and> tier < 3 then (Inr (IsScore sc), s, sv)
      else if score_gt sc mate_soon then
        (if is_seen_pos env sv board then (Inr (IsScore sc), s, sv)
         else
           (case deepcopy s n of
              (s1, copied) \<Rightarrow>
                (case cook_mate depth env s1 copied w of
                   (Inl e, s2) \<Rightarrow> (Inl e, s2, sv)
                 | (Inr None, s2) \<Rightarrow> (Inr (IsScore sc), s2, sv)
                 | (Inr (Some mate_solution), s2) \<Rightarrow>
                     if tier = 1 \<and> length mate_solution = 3 then (Inr (IsScore sc), s2, sv)
                     else (Inr (IsPuzzle \<lparr>puzzle_node = n, puzzle_moves = mate_solution,
                                          puzzle_cp = 999999999\<rparr>), s2, sv))))
      else if score_ge sc (Cp 200) \<and>
              win_chances env sc > float_add (win_chances env prev_score) (round_to_double 0.6) then
        (if score_lt sc (Cp 400) \<and> material_diff env board w > - 1 then (Inr (IsScore sc), s, sv)
         else if is_seen_pos env sv board then (Inr (IsScore sc), s, sv)
         else
           (case deepcopy s n of
              (s1, pnode) \<Rightarrow>
                (case cook_advantage depth env s1 pnode w of
                   (Inl e, s2) \<Rightarrow> (Inl e, s2, sv)
                 | (Inr None, s2) \<Rightarrow> (Inr (IsScore sc), s2, set_seen env sv)
                 | (Inr (Some []), s2) \<Rightarrow> (Inr (IsScore sc), s2, set_seen env sv)
                 | (Inr (Some (p # ps)), s2) \<Rightarrow>
                     (case trim_solution (p # ps) of
                        Inl e \<Rightarrow> (Inl e, s2, set_seen env sv)
                      | Inr solution \<Rightarrow>
                          if solution = [] \<or> length solution = 1
                          then (Inr (IsScore sc), s2, set_seen env sv)
                          else if tier < 3 \<and> length solution = 3
                          then (Inr (IsScore sc), s2, set_seen env sv)
                          else (Inr (IsPuzzle
                                  \<lparr>puzzle_node = n,
                                   puzzle_moves = map (\<lambda>p. move (best p)) solution,
                                   puzzle_cp = (case score_cp (score (best (last solution))) of
                                                  None \<Rightarrow> 999999998 | Some cp \<Rightarrow> cp)\<rparr>),
                                s2, set_seen env sv)))))
      else (Inr (IsScore sc), s, sv))"

text \<open>The local variables of \<^verbatim>\<open>analyze_game\<close> that live across iterations.\<close>

record 'm scan =
  prev_score :: score
  seen_epds :: "string set"
  board :: "'m list"
  skip_until_irreversible :: bool

text \<open>The \<^verbatim>\<open>for\<close> loop of \<^verbatim>\<open>analyze_game\<close> over the nodes of \<^verbatim>\<open>game.mainline()\<close>,
  given as the list of their addresses: the iterator follows \<^verbatim>\<open>variations[0]\<close> while the
  loop runs, and no node of the game is written to in between (last section).  The result
  \<open>Inr None\<close> is Python's \<^verbatim>\<open>None\<close>.  The castling test looks up the global name
  \<^verbatim>\<open>maximum_castling_rights\<close> after it has read \<^verbatim>\<open>board.castling_rights\<close>.\<close>

fun analyze_loop :: "nat \<Rightarrow> ('m, 's) env \<Rightarrow> int \<Rightarrow> 'm scan \<Rightarrow> 'm store \<Rightarrow> 's \<Rightarrow> addr list \<Rightarrow>
    (error + 'm Puzzle option) \<times> 'm store \<times> 's" where
  "analyze_loop depth env tier st s sv [] = (Inr None, s, sv)"
| "analyze_loop depth env tier st s sv (n # rest) =
     (let mv = gn_move (cells s n) in
      if skip_until_irreversible st \<and> \<not> is_irreversible env (board st) mv
      then analyze_loop depth env tier (st\<lparr>board := board st @ [mv]\<rparr>) s sv rest
      else
        (let st1 = (if skip_until_irreversible st
                    then st\<lparr>skip_until_irreversible := False, seen_epds := {}\<rparr> else st)
         in
         case gn_eval (cells s n) of
           None \<Rightarrow> (Inr None, s, sv)
         | Some current_eval \<Rightarrow>
             (let b = board st1 @ [mv]; key = epd env b in
              if key \<in> seen_epds st1
              then analyze_loop depth env tier
                     (st1\<lparr>board := b, skip_until_irreversible := True\<rparr>) s sv rest
              else
                (let st2 = st1\<lparr>board := b, seen_epds := insert key (seen_epds st1)\<rparr> in
                 case maximum_castling_rights of
                   None \<Rightarrow> (Inl NameError, s, sv)
                 | Some max_rights \<Rightarrow>
                     if castling_rights env b \<noteq> max_rights b
                     then analyze_loop depth env tier st2 s sv rest
                     else
                       (case analyze_position depth env tier s sv n (prev_score st2)
                               current_eval of
                          (Inl e, s', sv') \<Rightarrow> (Inl e, s', sv')
                        | (Inr (IsPuzzle puzzle), s', sv') \<Rightarrow> (Inr (Some puzzle), s', sv')
                        | (Inr (IsScore result), s', sv') \<Rightarrow>
                            analyze_loop depth env tier (st2\<lparr>prev_score := neg result\<rparr>)
                              s' sv' rest)))))"

definition analyze_game :: "nat \<Rightarrow> ('m, 's) env \<Rightarrow> int \<Rightarrow> 'm store \<Rightarrow> 's \<Rightarrow> addr list \<Rightarrow>
    (error + 'm Puzzle option) \<times> 'm store \<times> 's" where
  "analyze_game depth env tier s sv game =
     analyze_loop depth env tier
       \<lparr>prev_score = Cp 20, seen_epds = {}, board = [], skip_until_irreversible = False\<rparr>
       s sv game"

section \<open>Notions used by the properties\<close>

text \<open>A score that is a mate for the favoured side in at most 15: \<^verbatim>\<open>Mate(n)\<close> with
  \<open>1 \<le> n \<le> 15\<close>, or the mate already on the board.\<close>

definition is_mate_within_horizon :: "score \<Rightarrow> bool" where
  "is_mate_within_horizon sc =
     (case sc of Cp c \<Rightarrow> False | Mate m \<Rightarrow> 1 \<le> m \<and> m \<le> 15 | MateGiven \<Rightarrow> True)"

text \<open>Every object that was allocated in store \<open>s\<close> is the same in store \<open>s'\<close>.\<close>

definition game_tree_unchanged :: "'m store \<Rightarrow> 'm store \<Rightarrow> bool" where
  "game_tree_unchanged s s' \<longleftrightarrow>
     store_size s \<le> store_size s' \<and> (\<forall>a < store_size s. cells s' a = cells s a)"

section \<open>A small world to run the generator in\<close>

text \<open>Moves are numbers, the server counts the games marked as seen, and the engine
  answers from a table of positions.  The win chance of a centipawn score is a double: the
  score divided by 1024 and cut off at 1023/1024, but at 307 centipawns the double nearest
  to 0.3.\<close>

definition demo_win_chances :: "score \<Rightarrow> real" where
  "demo_win_chances sc =
     (case sc of
        Cp c \<Rightarrow> (if c = 307 then 5404319552844595 / 18014398509481984
                 else if 1023 \<le> c then 1023 / 1024
                 else if c \<le> - 1023 then - 1023 / 1024
                 else of_int c / 1024)
      | Mate m \<Rightarrow> (if m > 0 then 1 else - 1)
      | MateGiven \<Rightarrow> 1)"

definition demo_top_two :: "nat list \<Rightarrow> bool \<Rightarrow> nat EngineMove \<times> nat EngineMove option" where
  "demo_top_two b w =
     (if b = [1] then (\<lparr>move = 10, score = Mate 2\<rparr>, Some \<lparr>move = 11, score = Cp 0\<rparr>)
      else if b = [1, 10, 20] then (\<lparr>move = 99, score = Mate 1\<rparr>, None)
      else if b = [2] then (\<lparr>move = 30, score = Cp 4000\<rparr>, None)
      else if b = [2, 30] then (\<lparr>move = 31, score = Cp 4000\<rparr>, None)
      else if b = [4] then (\<lparr>move = 40, score = Cp 100\<rparr>, None)
      else if b = [5] then (\<lparr>move = 50, score = Mate 15\<rparr>, Some \<lparr>move = 51, score = Cp 0\<rparr>)
      else if b = [5, 50] then (\<lparr>move = 52, score = Mate 14\<rparr>, None)
      else if b = [5, 50, 52] then (\<lparr>move = 99, score = Mate 1\<rparr>, None)
      else if b = [61, 62, 63, 64] then (\<lparr>move = 99, score = Mate 1\<rparr>, None)
      else (\<lparr>move = 0, score = Cp 0\<rparr>, Some \<lparr>move = 0, score = Cp 0\<rparr>))"

definition demo_env :: "(nat, nat) env" where
  "demo_env =
     \<lparr>win_chances = demo_win_chances,
      top_two = demo_top_two,
      analyse = (\<lambda>b n. if b = [7]
                   then [\<lparr>relative = Mate 1, pov_turn = False\<rparr>,
                         \<lparr>relative = Mate 1, pov_turn = False\<rparr>,
                         \<lparr>relative = Cp 9000, pov_turn = False\<rparr>]
                   else []),
      play = (\<lambda>b. if b = [1, 10] then Some 20 else if b = [5, 50] then Some 52 else None),
      is_game_over = (\<lambda>b. 99 \<in> set b),
      turn = (\<lambda>b. even (length b)),
      is_repetition = (\<lambda>b n. b = [3]),
      legal_moves_count = (\<lambda>b. 20),
      is_irreversible = (\<lambda>b m. m = 64),
      epd = (\<lambda>b. if b = [61] \<or> b = [61, 62] then ''K'' else ''L''),
      castling_rights = (\<lambda>b. 15),
      is_up_in_material = (\<lambda>b w. False),
      material_diff = (\<lambda>b w. 0),
      is_seen_pos = (\<lambda>sv b. False),
      set_seen = Suc\<rparr>"

text \<open>A store with one allocated node, reached by the moves \<open>b\<close>.\<close>

definition one_node :: "nat list \<Rightarrow> povscore option \<Rightarrow> nat store" where
  "one_node b e =
     \<lparr>cells = (\<lambda>a. \<lparr>gn_move = last b, gn_eval = e, gn_variations = [], gn_board = b\<rparr>),
      store_size = 1\<rparr>"

text \<open>A game of four plies, the moves 61 to 64.  The second ply repeats the position key
  of the first, the third has no evaluation, the fourth is irreversible and evaluated as a
  mate in one for the side to move.\<close>

definition four_plies :: "nat store" where
  "four_plies =
     \<lparr>cells = (\<lambda>a.
        if a = 0 then \<lparr>gn_move = 61, gn_eval = Some \<lparr>relative = Cp 0, pov_turn = False\<rparr>,
                       gn_variations = [1], gn_board = [61]\<rparr>
        else if a = 1 then \<lparr>gn_move = 62, gn_eval = Some \<lparr>relative = Cp 0, pov_turn = True\<rparr>,
                            gn_variations = [2], gn_board = [61, 62]\<rparr>
        else if a = 2 then \<lparr>gn_move = 63, gn_eval = None,
                            gn_variations = [3], gn_board = [61, 62, 63]\<rparr>
        else \<lparr>gn_move = 64, gn_eval = Some \<lparr>relative = Mate 1, pov_turn = True\<rparr>,
              gn_variations = [], gn_board = [61, 62, 63, 64]\<rparr>),
      store_size = 4\<rparr>"

section \<open>Facts about scores\<close>

lemma score_tuple_inj: "score_tuple a = score_tuple b \<longleftrightarrow> a = b"
  by (cases a; cases b) (auto simp: score_tuple_def)

lemma not_score_lt: "\<not> score_lt a b \<longleftrightarrow> score_ge a b"
  by (auto simp: score_lt_def score_ge_def)

lemma score_lt_Mate1: "score_lt sc (Mate 1) \<longleftrightarrow> sc \<noteq> Mate 1 \<and> sc \<noteq> MateGiven"
  by (cases sc) (auto simp: score_lt_def score_tuple_def)

lemma score_lt_mate_soon: "score_lt sc mate_soon \<longleftrightarrow> \<not> is_mate_within_horizon sc"
  by (cases sc) (auto simp: score_lt_def mate_soon_def score_tuple_def is_mate_within_horizon_def)

lemma score_gt_mate_soon:
  "score_gt sc mate_soon \<longleftrightarrow> is_mate_within_horizon sc \<and> sc \<noteq> Mate 15"
  by (cases sc) (auto simp: score_gt_def mate_soon_def score_tuple_def is_mate_within_horizon_def)

section \<open>Running the model\<close>

lemmas binade_numeral =
  binade.simps(2)[of "pred_numeral k", folded numeral_eq_Suc] for k

lemmas float_defs = round_to_double_def float_add_def pow2_def binade_numeral

text \<open>The literals of the source and some sums, as CPython has them.  No double lies
  between the double nearest to 0.6 and 0.6 itself, so a float is at most (or above) the
  literal \<^verbatim>\<open>0.6\<close> exactly when the real it stands for is at most (or above) 0.6.\<close>

lemma float_examples:
  "round_to_double 0.7 = 3152519739159347 / 4503599627370496"
  "round_to_double 0.6 = 5404319552844595 / 9007199254740992"
  "round_to_double 0.3 = 5404319552844595 / 18014398509481984"
  "round_to_double (1 / 3) = 6004799503160661 / 18014398509481984"
  "float_add (round_to_double 0.3) (round_to_double 0.7) = 1"
  "float_add (20 / 1024) (round_to_double 0.6) = 5580241413288755 / 9007199254740992"
  "float_add (- 1) (round_to_double 0.7) = - 1351079888211149 / 4503599627370496"
  "round_to_double 0.6 < 0.6 \<and> 0.6 < round_to_double 0.6 + 1 / 2 ^ 53"
  by (simp_all add: float_defs Let_def)

lemmas cook_mate_numeral =
  cook_mate.simps(2)[of "pred_numeral k", folded numeral_eq_Suc] for k

lemmas cook_advantage_numeral =
  cook_advantage.simps(2)[of "pred_numeral k", folded numeral_eq_Suc] for k

lemmas run_defs =
  demo_env_def one_node_def demo_top_two_def demo_win_chances_def
  get_next_pair_def get_next_move_pair_def get_next_move_def is_valid_attack_def
  is_valid_mate_in_one_def add_main_variation_def deepcopy_def Let_def
  score_lt_def score_gt_def score_ge_def score_tuple_def mate_soon_def pov_def
  cook_mate_numeral cook_advantage_numeral analyze_position_def analyze_game_def
  trim_solution.simps maximum_castling_rights_def float_defs

section \<open>The trimming loop\<close>

lemma trim_solution_only_moves:
  "\<forall>p \<in> set solution. second p = None \<Longrightarrow> trim_solution solution = Inl IndexError"
proof (induction solution rule: rev_induct)
  case Nil
  show ?case by (simp add: trim_solution.simps)
next
  case (snoc p ps)
  then have "trim_solution (ps @ [p]) = trim_solution ps"
    by (subst trim_solution.simps) simp
  with snoc show ?case by simp
qed

lemma trim_solution_result:
  "trim_solution solution = Inr kept \<Longrightarrow>
   odd (length kept) \<and> second (last kept) \<noteq> None \<and> kept = take (length kept) solution"
proof (induction solution rule: rev_induct)
  case Nil
  then show ?case by (simp add: trim_solution.simps)
next
  case (snoc p ps)
  show ?case
  proof (cases "even (length (ps @ [p])) \<or> second p = None")
    case True
    then have "trim_solution (ps @ [p]) = trim_solution ps"
      by (subst trim_solution.simps) auto
    with snoc.prems have k: "trim_solution ps = Inr kept" by simp
    from snoc.IH[OF k] have "odd (length kept)" "second (last kept) \<noteq> None"
      "kept = take (length kept) ps" by auto
    moreover from arg_cong[OF this(3), of length] have "length kept \<le> length ps"
      by simp
    ultimately show ?thesis by simp
  next
    case False
    then have "trim_solution (ps @ [p]) = Inr (ps @ [p])"
      by (subst trim_solution.simps) auto
    with snoc.prems False show ?thesis by auto
  qed
qed

section \<open>The position analyser\<close>

text \<open>When no earlier step fires, a mate within the horizon other than \<^verbatim>\<open>Mate(15)\<close>
  takes the mate branch: the server is asked, and on a position not seen the result is that
  of \<^verbatim>\<open>cook_mate\<close> on the copy.\<close>

lemma analyze_position_mate_branch:
  fixes env :: "('m, 's) env" and s :: "'m store" and n :: addr and current_eval :: povscore
  defines "b \<equiv> gn_board (cells s n)"
  defines "w \<equiv> turn env (gn_board (cells s n))"
  defines "sc \<equiv> pov current_eval (turn env (gn_board (cells s n)))"
  assumes "\<not> legal_moves_count env b < 2"
    and "\<not> (score_gt prev (Cp 300) \<and> score_lt sc mate_soon)"
    and "\<not> is_up_in_material env b w"
    and "\<not> (score_ge sc (Mate 1) \<and> tier < 3)"
    and "is_mate_within_horizon sc" and "sc \<noteq> Mate 15"
  shows "analyze_position depth env tier s sv n prev current_eval =
     (if is_seen_pos env sv b then (Inr (IsScore sc), s, sv)
      else
        (case cook_mate depth env (fst (deepcopy s n)) (snd (deepcopy s n)) w of
           (Inl e, s2) \<Rightarrow> (Inl e, s2, sv)
         | (Inr None, s2) \<Rightarrow> (Inr (IsScore sc), s2, sv)
         | (Inr (Some mate_solution), s2) \<Rightarrow>
             if tier = 1 \<and> length mate_solution = 3 then (Inr (IsScore sc), s2, sv)
             else (Inr (IsPuzzle \<lparr>puzzle_node = n, puzzle_moves = mate_solution,
                                  puzzle_cp = 999999999\<rparr>), s2, sv)))"
proof -
  from assms(8,9) have c5: "score_gt sc mate_soon" by (simp add: score_gt_mate_soon)
  from assms(5) have c2: "(score_gt prev (Cp 300) \<and> score_lt sc mate_soon) = False" by simp
  from assms(7) have c4: "(score_ge sc (Mate 1) \<and> tier < 3) = False" by simp
  obtain s1 c where dc: "deepcopy s n = (s1, c)" by (cases "deepcopy s n")
  from assms(4,6) c5 show ?thesis
    unfolding analyze_position_def Let_def
    by (simp add: c2[unfolded sc_def] c4[unfolded sc_def] dc b_def w_def sc_def
        split: prod.splits sum.splits option.splits)
qed

text \<open>
  C1.  The claim: \<^verbatim>\<open>analyze_position\<close> always returns a puzzle or a score and never raises;
  when trimming reduces the solution of \<^verbatim>\<open>cook_advantage\<close> to the empty sequence, the
  sequence is discarded and the score is returned.  The code does not do this.  The loop
  tests the length first, the empty list has even length, and the loop body reads
  \<^verbatim>\<open>solution[-1]\<close>: the test for an empty result after the loop is never reached with one.
  Here the position after move 2 is evaluated at +4000 centipawns for the side to move, the
  engine reports a single line at this position and at the next one, and then no forcing
  move: \<^verbatim>\<open>cook_advantage\<close> returns two pairs without a second line, and the analysis
  raises \<^verbatim>\<open>IndexError\<close>.
\<close>

theorem analyze_position_trimming_raises:
  "fst (cook_advantage 10 demo_env (fst (deepcopy (one_node [2] None) 0))
          (snd (deepcopy (one_node [2] None) 0)) False) =
     Inr (Some [\<lparr>node = 1, winner = False, best = \<lparr>move = 30, score = Cp 4000\<rparr>, second = None\<rparr>,
                \<lparr>node = 2, winner = False, best = \<lparr>move = 31, score = Cp 4000\<rparr>, second = None\<rparr>])
   \<and> fst (analyze_position 10 demo_env 10 (one_node [2] None) 0 0 (Cp 20)
            \<lparr>relative = Cp 4000, pov_turn = False\<rparr>) = Inl IndexError"
  by (simp add: run_defs)

text \<open>
  C2.  The claim: when no earlier step fires and the score is a mate within the horizon of
  15, a score of exactly mate in 15 included, \<^verbatim>\<open>analyze_position\<close> takes the mate branch and
  runs \<^verbatim>\<open>cook_mate\<close> on a position not seen before.  The code enters the branch on
  \<^verbatim>\<open>score > mate_soon\<close>, which \<^verbatim>\<open>Mate(15)\<close> does not satisfy, although the step before
  (\<^verbatim>\<open>score < mate_soon\<close>) and \<^verbatim>\<open>cook_mate\<close> both count it as inside the horizon.  Here the
  position after move 5 is a mate in 15 for the side to move, no earlier step fires, the
  position is not seen, and \<^verbatim>\<open>cook_mate\<close> would return three moves; the analysis returns
  the score, after the advantage branch when the previous score is +20 centipawns, and
  with no probing at all when it is +700.
\<close>

theorem analyze_position_mate_in_15:
  "\<not> legal_moves_count demo_env [5] < 2 \<and>
   \<not> score_lt (Mate 15) mate_soon \<and>
   \<not> is_up_in_material demo_env [5] False \<and>
   \<not> score_ge (Mate 15) (Mate 1) \<and>
   is_mate_within_horizon (Mate 15) \<and>
   \<not> is_seen_pos demo_env 0 [5] \<and>
   fst (cook_mate 10 demo_env (fst (deepcopy (one_node [5] None) 0))
          (snd (deepcopy (one_node [5] None) 0)) False) = Inr (Some [50, 52, 99]) \<and>
   analyze_position 10 demo_env 10 (one_node [5] None) 0 0 (Cp 700)
      \<lparr>relative = Mate 15, pov_turn = False\<rparr> = (Inr (IsScore (Mate 15)), one_node [5] None, 0) \<and>
   fst (analyze_position 10 demo_env 10 (one_node [5] None) 0 0 (Cp 20)
          \<lparr>relative = Mate 15, pov_turn = False\<rparr>) = Inr (IsScore (Mate 15)) \<and>
   snd (snd (analyze_position 10 demo_env 10 (one_node [5] None) 0 0 (Cp 20)
          \<lparr>relative = Mate 15, pov_turn = False\<rparr>)) = 1"
  by (simp add: run_defs is_mate_within_horizon_def)

section \<open>The game scan\<close>

text \<open>The flag and the seen set work as the loop is written: a ply whose key is in the
  seen set sets the flag, the plies after it with a reversible move only push their move,
  and a ply with an irreversible move clears the flag and the seen set and is then handled
  as by a scan that is not skipping.\<close>

lemma skipped_run:
  "skip_until_irreversible st \<Longrightarrow>
   (\<forall>i < length ns. \<not> is_irreversible env
        (board st @ map (\<lambda>a. gn_move (cells s a)) (take i ns)) (gn_move (cells s (ns ! i)))) \<Longrightarrow>
   analyze_loop depth env tier st s sv (ns @ rest) =
   analyze_loop depth env tier (st\<lparr>board := board st @ map (\<lambda>a. gn_move (cells s a)) ns\<rparr>) s sv rest"
proof (induction ns arbitrary: st)
  case Nil
  then show ?case by simp
next
  case (Cons n ns)
  let ?st = "st\<lparr>board := board st @ [gn_move (cells s n)]\<rparr>"
  from Cons.prems(2) have first: "\<not> is_irreversible env (board st) (gn_move (cells s n))"
    by auto
  have later: "\<forall>i < length ns. \<not> is_irreversible env
        (board ?st @ map (\<lambda>a. gn_move (cells s a)) (take i ns)) (gn_move (cells s (ns ! i)))"
  proof (intro allI impI)
    fix i assume "i < length ns"
    with Cons.prems(2)[rule_format, of "Suc i"] show "\<not> is_irreversible env
        (board ?st @ map (\<lambda>a. gn_move (cells s a)) (take i ns)) (gn_move (cells s (ns ! i)))"
      by simp
  qed
  have sk: "skip_until_irreversible ?st" using Cons.prems(1) by simp
  from Cons.IH[OF sk later] first Cons.prems(1) show ?case by simp
qed

lemma skip_mode_steps:
  "(\<not> skip_until_irreversible st \<and> gn_eval (cells s d) = Some e \<and>
    epd env (board st @ [gn_move (cells s d)]) \<in> seen_epds st \<and>
    (\<forall>i < length ns. \<not> is_irreversible env
        (board st @ gn_move (cells s d) # map (\<lambda>a. gn_move (cells s a)) (take i ns))
        (gn_move (cells s (ns ! i)))) \<longrightarrow>
      analyze_loop depth env tier st s sv (d # ns @ rest) =
      analyze_loop depth env tier
        (st\<lparr>skip_until_irreversible := True,
            board := board st @ gn_move (cells s d) # map (\<lambda>a. gn_move (cells s a)) ns\<rparr>)
        s sv rest) \<and>
   (skip_until_irreversible st \<and> is_irreversible env (board st) (gn_move (cells s n)) \<longrightarrow>
      analyze_loop depth env tier st s sv (n # rest) =
      analyze_loop depth env tier
        (st\<lparr>skip_until_irreversible := False, seen_epds := {}\<rparr>) s sv (n # rest))"
proof (intro conjI impI)
  assume a: "\<not> skip_until_irreversible st \<and> gn_eval (cells s d) = Some e \<and>
    epd env (board st @ [gn_move (cells s d)]) \<in> seen_epds st \<and>
    (\<forall>i < length ns. \<not> is_irreversible env
        (board st @ gn_move (cells s d) # map (\<lambda>a. gn_move (cells s a)) (take i ns))
        (gn_move (cells s (ns ! i))))"
  let ?st = "st\<lparr>board := board st @ [gn_move (cells s d)], skip_until_irreversible := True\<rparr>"
  from a have "analyze_loop depth env tier st s sv (d # ns @ rest) =
      analyze_loop depth env tier ?st s sv (ns @ rest)"
    by (simp add: Let_def)
  also have "\<dots> = analyze_loop depth env tier
       (?st\<lparr>board := board ?st @ map (\<lambda>a. gn_move (cells s a)) ns\<rparr>) s sv rest"
    using a by (intro skipped_run) simp_all
  finally show "analyze_loop depth env tier st s sv (d # ns @ rest) =
      analyze_loop depth env tier
        (st\<lparr>skip_until_irreversible := True,
            board := board st @ gn_move (cells s d) # map (\<lambda>a. gn_move (cells s a)) ns\<rparr>)
        s sv rest"
    by (simp del: analyze_loop.simps)
next
  assume "skip_until_irreversible st \<and> is_irreversible env (board st) (gn_move (cells s n))"
  then show "analyze_loop depth env tier st s sv (n # rest) =
      analyze_loop depth env tier
        (st\<lparr>skip_until_irreversible := False, seen_epds := {}\<rparr>) s sv (n # rest)"
    by (simp add: Let_def)
qed

text \<open>A ply that gets as far as the castling test ends the scan with \<^verbatim>\<open>NameError\<close>: the
  ply is examined (the flag is clear, or the move is irreversible), it has an evaluation,
  and its key is new.  So the scan never calls \<^verbatim>\<open>analyze_position\<close>: it ends with no
  puzzle or with \<^verbatim>\<open>NameError\<close>, and leaves store and server as they were.\<close>

lemma castling_test_raises:
  "gn_eval (cells s n) = Some e \<Longrightarrow>
   (\<not> skip_until_irreversible st \<and> epd env (board st @ [gn_move (cells s n)]) \<notin> seen_epds st) \<or>
   (skip_until_irreversible st \<and> is_irreversible env (board st) (gn_move (cells s n))) \<Longrightarrow>
   analyze_loop depth env tier st s sv (n # rest) = (Inl NameError, s, sv)"
  by (auto simp: Let_def maximum_castling_rights_def)


lemma analyze_game_first_ply:
  "analyze_game depth env tier s sv (n # rest) =
     ((if gn_eval (cells s n) = None then Inr None else Inl NameError), s, sv)"
  by (auto simp: analyze_game_def Let_def maximum_castling_rights_def split: option.splits)



text \<open>
  C8.  The claim: once a position key repeats, no ply is analysed until the next
  irreversible move, the seen set is cleared exactly at that move, and analysis resumes
  after it.  The loop is written to do so, but it cannot get there: the castling test that
  every examined ply with a new key goes through raises \<^verbatim>\<open>NameError\<close>, so a scan ends at
  the first ply of the game and no key is ever met twice.  In the game of four plies the
  second ply repeats the key of the first, the third is reversible and the fourth is
  irreversible and has an evaluation; the scan raises at the first ply.
\<close>

theorem repeated_key_never_reached:
  "epd demo_env [61, 62] = epd demo_env [61] \<and>
   \<not> is_irreversible demo_env [61, 62] 63 \<and>
   is_irreversible demo_env [61, 62, 63] 64 \<and>
   gn_eval (cells four_plies 3) = Some \<lparr>relative = Mate 1, pov_turn = True\<rparr> \<and>
   analyze_game 10 demo_env 10 four_plies 0 [0, 1, 2, 3] = (Inl NameError, four_plies, 0)"
  by (simp add: four_plies_def demo_env_def analyze_game_def maximum_castling_rights_def)

section \<open>The attack validators\<close>

lemma no_good_non_mate_iff:
  "no_good_non_mate env scs \<longleftrightarrow>
   \<not> (\<exists>sc \<in> set scs. score_lt sc (Mate 1) \<and> win_chances env sc > 0.6)"
  by (induction scs) auto

text \<open>
  C6.  \<^verbatim>\<open>is_valid_attack\<close> is true if and only if the pair has no second line, or
  \<^verbatim>\<open>is_valid_mate_in_one\<close> holds of it, or the win chance of the best line exceeds that of
  the second line by more than 0.7, which the code tests in floats: the best line's win
  chance is greater than the float sum of the second line's win chance and \<^verbatim>\<open>0.7\<close>.  In
  particular it is true of every pair without a second line.
\<close>

theorem is_valid_attack_iff:
  "(is_valid_attack env s pair \<longleftrightarrow>
      second pair = None \<or> is_valid_mate_in_one env s pair \<or>
      (\<exists>snd_line. second pair = Some snd_line \<and>
         win_chances env (score (best pair)) >
           float_add (win_chances env (score snd_line)) (round_to_double 0.7)))
   \<and> is_valid_attack env s (pair\<lparr>second := None\<rparr>)"
  by (cases "second pair") (auto simp: is_valid_attack_def)

text \<open>In the small world: no second line; a valid mate in one; win chances of 1023/1024
  against 0; of 300/1024 against 290/1024, which is no valid attack.  The last two pairs are
  at the rounding of the sum: with a win chance of 1 against the double nearest to 0.3 the
  float sum with \<^verbatim>\<open>0.7\<close> is 1, although the sum of the reals is less, and the attack is not
  valid; against 306/1024 it is.\<close>

theorem is_valid_attack_iff_witness:
  "is_valid_attack demo_env (one_node [7] None)
     \<lparr>node = 0, winner = False, best = \<lparr>move = 1, score = Cp 300\<rparr>, second = None\<rparr> \<and>
   is_valid_attack demo_env (one_node [7] None)
     \<lparr>node = 0, winner = False, best = \<lparr>move = 1, score = Mate 1\<rparr>,
      second = Some \<lparr>move = 2, score = Cp 100\<rparr>\<rparr> \<and>
   is_valid_attack demo_env (one_node [7] None)
     \<lparr>node = 0, winner = False, best = \<lparr>move = 1, score = Cp 9000\<rparr>,
      second = Some \<lparr>move = 2, score = Cp 0\<rparr>\<rparr> \<and>
   \<not> is_valid_attack demo_env (one_node [7] None)
     \<lparr>node = 0, winner = False, best = \<lparr>move = 1, score = Cp 300\<rparr>,
      second = Some \<lparr>move = 2, score = Cp 290\<rparr>\<rparr> \<and>
   float_add (demo_win_chances (Cp 307)) (round_to_double 0.7) = 1 \<and>
   demo_win_chances (Cp 307) + 0.7 < 1 \<and>
   \<not> is_valid_attack demo_env (one_node [7] None)
     \<lparr>node = 0, winner = False, best = \<lparr>move = 1, score = Mate 2\<rparr>,
      second = Some \<lparr>move = 2, score = Cp 307\<rparr>\<rparr> \<and>
   is_valid_attack demo_env (one_node [7] None)
     \<lparr>node = 0, winner = False, best = \<lparr>move = 1, score = Mate 2\<rparr>,
      second = Some \<lparr>move = 2, score = Cp 306\<rparr>\<rparr>"
  using
    is_valid_attack_iff[of demo_env "one_node [7] None"
      "\<lparr>node = 0, winner = False, best = \<lparr>move = 1, score = Cp 300\<rparr>, second = None\<rparr>"]
    is_valid_attack_iff[of demo_env "one_node [7] None"
      "\<lparr>node = 0, winner = False, best = \<lparr>move = 1, score = Mate 1\<rparr>,
        second = Some \<lparr>move = 2, score = Cp 100\<rparr>\<rparr>"]
    is_valid_attack_iff[of demo_env "one_node [7] None"
      "\<lparr>node = 0, winner = False, best = \<lparr>move = 1, score = Cp 9000\<rparr>,
        second = Some \<lparr>move = 2, score = Cp 0\<rparr>\<rparr>"]
    is_valid_attack_iff[of demo_env "one_node [7] None"
      "\<lparr>node = 0, winner = False, best = \<lparr>move = 1, score = Cp 300\<rparr>,
        second = Some \<lparr>move = 2, score = Cp 290\<rparr>\<rparr>"]
    is_valid_attack_iff[of demo_env "one_node [7] None"
      "\<lparr>node = 0, winner = False, best = \<lparr>move = 1, score = Mate 2\<rparr>,
        second = Some \<lparr>move = 2, score = Cp 307\<rparr>\<rparr>"]
    is_valid_attack_iff[of demo_env "one_node [7] None"
      "\<lparr>node = 0, winner = False, best = \<lparr>move = 1, score = Mate 2\<rparr>,
        second = Some \<lparr>move = 2, score = Cp 306\<rparr>\<rparr>"]
  by (simp add: is_valid_mate_in_one_def demo_env_def demo_win_chances_def float_defs Let_def)

text \<open>
  C7.  \<^verbatim>\<open>is_valid_mate_in_one\<close> is false when the best line is not \<^verbatim>\<open>Mate(1)\<close>.  When it
  is, the result is true if the second line is absent or has a win chance of at most 0.6;
  if the second line is a \<^verbatim>\<open>Mate(1)\<close> too, the engine is asked for five lines at the
  pair's position and the result is false exactly when one of them is not an immediate mate
  (neither \<^verbatim>\<open>Mate(1)\<close> nor the mate on the board) and has a win chance above 0.6; in the
  remaining case (a second line that is not \<^verbatim>\<open>Mate(1)\<close>, with a win chance above 0.6) it is
  false.
\<close>

theorem is_valid_mate_in_one_cases:
  "(score (best pair) \<noteq> Mate 1 \<longrightarrow> \<not> is_valid_mate_in_one env s pair) \<and>
   (score (best pair) = Mate 1 \<and> second pair = None \<longrightarrow> is_valid_mate_in_one env s pair) \<and>
   (score (best pair) = Mate 1 \<and> second pair = Some x \<and> win_chances env (score x) \<le> 0.6
      \<longrightarrow> is_valid_mate_in_one env s pair) \<and>
   (score (best pair) = Mate 1 \<and> second pair = Some x \<and> win_chances env (score x) > 0.6 \<and>
    score x = Mate 1 \<longrightarrow>
      (is_valid_mate_in_one env s pair \<longleftrightarrow>
         \<not> (\<exists>sc \<in> set (map (\<lambda>pv. pov pv (winner pair))
                          (analyse env (gn_board (cells s (node pair))) 5)).
              sc \<noteq> Mate 1 \<and> sc \<noteq> MateGiven \<and> win_chances env sc > 0.6))) \<and>
   (score (best pair) = Mate 1 \<and> second pair = Some x \<and> win_chances env (score x) > 0.6 \<and>
    score x \<noteq> Mate 1 \<longrightarrow> \<not> is_valid_mate_in_one env s pair)"
  by (auto simp: is_valid_mate_in_one_def no_good_non_mate_iff score_lt_Mate1)

text \<open>At the position after move 7 the five-line query of the small world returns two
  immediate mates and a line at +9000 centipawns, so two mates in one are not a valid mate
  in one there; at any other position it returns nothing, and they are.\<close>

theorem is_valid_mate_in_one_cases_witness:
  "\<not> is_valid_mate_in_one demo_env (one_node [7] None)
     \<lparr>node = 0, winner = False, best = \<lparr>move = 1, score = Mate 2\<rparr>, second = None\<rparr> \<and>
   is_valid_mate_in_one demo_env (one_node [7] None)
     \<lparr>node = 0, winner = False, best = \<lparr>move = 1, score = Mate 1\<rparr>, second = None\<rparr> \<and>
   is_valid_mate_in_one demo_env (one_node [7] None)
     \<lparr>node = 0, winner = False, best = \<lparr>move = 1, score = Mate 1\<rparr>,
      second = Some \<lparr>move = 2, score = Cp 100\<rparr>\<rparr> \<and>
   \<not> is_valid_mate_in_one demo_env (one_node [7] None)
     \<lparr>node = 0, winner = False, best = \<lparr>move = 1, score = Mate 1\<rparr>,
      second = Some \<lparr>move = 2, score = Mate 1\<rparr>\<rparr> \<and>
   is_valid_mate_in_one demo_env (one_node [8] None)
     \<lparr>node = 0, winner = False, best = \<lparr>move = 1, score = Mate 1\<rparr>,
      second = Some \<lparr>move = 2, score = Mate 1\<rparr>\<rparr> \<and>
   \<not> is_valid_mate_in_one demo_env (one_node [7] None)
     \<lparr>node = 0, winner = False, best = \<lparr>move = 1, score = Mate 1\<rparr>,
      second = Some \<lparr>move = 2, score = Cp 9000\<rparr>\<rparr>"
  using
    is_valid_mate_in_one_cases[of
      "\<lparr>node = 0, winner = False, best = \<lparr>move = 1, score = Mate 2\<rparr>, second = None\<rparr>"
      demo_env "one_node [7] None" "\<lparr>move = 2 :: nat, score = Cp 100\<rparr>"]
    is_valid_mate_in_one_cases[of
      "\<lparr>node = 0, winner = False, best = \<lparr>move = 1, score = Mate 1\<rparr>, second = None\<rparr>"
      demo_env "one_node [7] None" "\<lparr>move = 2 :: nat, score = Cp 100\<rparr>"]
    is_valid_mate_in_one_cases[of
      "\<lparr>node = 0, winner = False, best = \<lparr>move = 1, score = Mate 1\<rparr>,
        second = Some \<lparr>move = 2, score = Cp 100\<rparr>\<rparr>"
      demo_env "one_node [7] None" "\<lparr>move = 2 :: nat, score = Cp 100\<rparr>"]
    is_valid_mate_in_one_cases[of
      "\<lparr>node = 0, winner = False, best = \<lparr>move = 1, score = Mate 1\<rparr>,
        second = Some \<lparr>move = 2, score = Mate 1\<rparr>\<rparr>"
      demo_env "one_node [7] None" "\<lparr>move = 2 :: nat, score = Mate 1\<rparr>"]
    is_valid_mate_in_one_cases[of
      "\<lparr>node = 0, winner = False, best = \<lparr>move = 1, score = Mate 1\<rparr>,
        second = Some \<lparr>move = 2, score = Mate 1\<rparr>\<rparr>"
      demo_env "one_node [8] None" "\<lparr>move = 2 :: nat, score = Mate 1\<rparr>"]
    is_valid_mate_in_one_cases[of
      "\<lparr>node = 0, winner = False, best = \<lparr>move = 1, score = Mate 1\<rparr>,
        second = Some \<lparr>move = 2, score = Cp 9000\<rparr>\<rparr>"
      demo_env "one_node [7] None" "\<lparr>move = 2 :: nat, score = Cp 9000\<rparr>"]
  by (simp add: demo_env_def demo_win_chances_def one_node_def pov_def)

section \<open>The cookers\<close>

text \<open>
  C4.  With at least one call allowed, \<^verbatim>\<open>cook_advantage\<close> ends in three ways: at a
  position that is a repetition it fails (\<^verbatim>\<open>None\<close>); otherwise, when the probe yields no
  pair, which is when the favoured side is to move and the attack is not valid, it succeeds
  with the empty sequence; and when the probed best score is below +200 centipawns it
  fails.  In all three the store is as it was.
\<close>

theorem cook_advantage_terminations:
  "(is_repetition env (gn_board (cells s n)) 2 \<longrightarrow>
      cook_advantage (Suc depth) env s n w = (Inr None, s)) \<and>
   (\<not> is_repetition env (gn_board (cells s n)) 2 \<and> get_next_pair env s n w = None \<longrightarrow>
      cook_advantage (Suc depth) env s n w = (Inr (Some []), s)) \<and>
   (\<not> is_repetition env (gn_board (cells s n)) 2 \<and> get_next_pair env s n w = Some pair \<and>
    score_lt (score (best pair)) (Cp 200) \<longrightarrow>
      cook_advantage (Suc depth) env s n w = (Inr None, s)) \<and>
   (get_next_pair env s n w = None \<longleftrightarrow>
      turn env (gn_board (cells s n)) = w \<and>
      \<not> is_valid_attack env s (get_next_move_pair env s n w))"
  by (simp add: Let_def get_next_pair_def)

theorem cook_advantage_terminations_witness:
  "cook_advantage 10 demo_env (one_node [3] None) 0 False = (Inr None, one_node [3] None) \<and>
   cook_advantage 10 demo_env (one_node [8] None) 0 False = (Inr (Some []), one_node [8] None) \<and>
   cook_advantage 10 demo_env (one_node [4] None) 0 False = (Inr None, one_node [4] None)"
  using
    cook_advantage_terminations[of demo_env "one_node [3] None" 0 9 False
      "\<lparr>node = 0, winner = False, best = \<lparr>move = 40, score = Cp 100\<rparr>, second = None\<rparr>"]
    cook_advantage_terminations[of demo_env "one_node [8] None" 0 9 False
      "\<lparr>node = 0, winner = False, best = \<lparr>move = 40, score = Cp 100\<rparr>, second = None\<rparr>"]
    cook_advantage_terminations[of demo_env "one_node [4] None" 0 9 False
      "\<lparr>node = 0, winner = False, best = \<lparr>move = 40, score = Cp 100\<rparr>, second = None\<rparr>"]
  by (simp add: demo_env_def one_node_def demo_top_two_def demo_win_chances_def
      get_next_pair_def get_next_move_pair_def is_valid_attack_def is_valid_mate_in_one_def
      score_lt_def score_tuple_def float_defs Let_def del: cook_advantage.simps)

text \<open>
  C5.  With at least one call allowed, \<^verbatim>\<open>cook_mate\<close> succeeds with the empty sequence at a
  position where the game is over.  With the favoured side to move it fails when the attack
  of the probed pair is not valid or when the best score is not a mate within 15 (a score
  of exactly \<^verbatim>\<open>Mate(15)\<close> passes), and otherwise goes on with the best move.  On the
  defender's turn it fails at once exactly when the engine yields no move, and otherwise
  goes on with the reply.  Going on is the recursive call at the new child node: its
  sequence gets the chosen move in front, its failure is the failure of the whole.
\<close>

theorem cook_mate_cases:
  "(is_game_over env (gn_board (cells s n)) \<longrightarrow>
      cook_mate (Suc depth) env s n w = (Inr (Some []), s)) \<and>
   (\<not> is_game_over env (gn_board (cells s n)) \<and> turn env (gn_board (cells s n)) = w \<and>
    \<not> is_valid_attack env s (get_next_move_pair env s n w) \<longrightarrow>
      cook_mate (Suc depth) env s n w = (Inr None, s)) \<and>
   (\<not> is_game_over env (gn_board (cells s n)) \<and> turn env (gn_board (cells s n)) = w \<and>
    \<not> is_mate_within_horizon (score (best (get_next_move_pair env s n w))) \<longrightarrow>
      cook_mate (Suc depth) env s n w = (Inr None, s)) \<and>
   (\<not> is_game_over env (gn_board (cells s n)) \<and> turn env (gn_board (cells s n)) = w \<and>
    is_valid_attack env s (get_next_move_pair env s n w) \<and>
    is_mate_within_horizon (score (best (get_next_move_pair env s n w))) \<and>
    mv = move (best (get_next_move_pair env s n w)) \<and>
    add_main_variation s n mv = (s1, child) \<longrightarrow>
      cook_mate (Suc depth) env s n w =
        (case cook_mate depth env s1 child w of
           (Inl err, s2) \<Rightarrow> (Inl err, s2)
         | (Inr None, s2) \<Rightarrow> (Inr None, s2)
         | (Inr (Some follow_up), s2) \<Rightarrow> (Inr (Some (mv # follow_up)), s2))) \<and>
   (\<not> is_game_over env (gn_board (cells s n)) \<and> turn env (gn_board (cells s n)) \<noteq> w \<and>
    play env (gn_board (cells s n)) = None \<longrightarrow>
      cook_mate (Suc depth) env s n w = (Inr None, s)) \<and>
   (\<not> is_game_over env (gn_board (cells s n)) \<and> turn env (gn_board (cells s n)) \<noteq> w \<and>
    play env (gn_board (cells s n)) = Some mv \<and>
    add_main_variation s n mv = (s1, child) \<longrightarrow>
      cook_mate (Suc depth) env s n w =
        (case cook_mate depth env s1 child w of
           (Inl err, s2) \<Rightarrow> (Inl err, s2)
         | (Inr None, s2) \<Rightarrow> (Inr None, s2)
         | (Inr (Some follow_up), s2) \<Rightarrow> (Inr (Some (mv # follow_up)), s2))) \<and>
   is_mate_within_horizon (Mate 15)"
  by (auto simp: get_next_pair_def get_next_move_def Let_def score_lt_mate_soon
      is_mate_within_horizon_def)

text \<open>In the small world: a finished game; an attack that is not valid; a best line
  that is no mate; a defender without a move; and the mate in two after move 1, first with
  the attacker to move, then at the child position with the defender to move.\<close>

theorem cook_mate_cases_witness:
  "cook_mate 10 demo_env (one_node [99] None) 0 False = (Inr (Some []), one_node [99] None) \<and>
   cook_mate 10 demo_env (one_node [8] None) 0 False = (Inr None, one_node [8] None) \<and>
   cook_mate 10 demo_env (one_node [4] None) 0 False = (Inr None, one_node [4] None) \<and>
   cook_mate 10 demo_env (one_node [8, 9] None) 0 False = (Inr None, one_node [8, 9] None) \<and>
   fst (cook_mate 10 demo_env (one_node [1] None) 0 False) = Inr (Some [10, 20, 99]) \<and>
   fst (cook_mate 9 demo_env (fst (add_main_variation (one_node [1] None) 0 10)) 1 False) =
     Inr (Some [20, 99])"
  using
    cook_mate_cases[where env = demo_env and s = "one_node [99] None" and n = 0 and depth = 9
      and w = False and mv = 0 and ?s1.0 = "one_node [99] None" and child = 0]
    cook_mate_cases[where env = demo_env and s = "one_node [8] None" and n = 0 and depth = 9
      and w = False and mv = 0 and ?s1.0 = "one_node [8] None" and child = 0]
    cook_mate_cases[where env = demo_env and s = "one_node [4] None" and n = 0 and depth = 9
      and w = False and mv = 0 and ?s1.0 = "one_node [4] None" and child = 0]
    cook_mate_cases[where env = demo_env and s = "one_node [8, 9] None" and n = 0 and depth = 9
      and w = False and mv = 0 and ?s1.0 = "one_node [8, 9] None" and child = 0]
    cook_mate_cases[where env = demo_env and s = "one_node [1] None" and n = 0 and depth = 9
      and w = False and mv = 10
      and ?s1.0 = "fst (add_main_variation (one_node [1] None) 0 10)" and child = 1]
    cook_mate_cases[where env = demo_env
      and s = "fst (add_main_variation (one_node [1] None) 0 10)" and n = 1 and depth = 8
      and w = False and mv = 20
      and ?s1.0 = "fst (add_main_variation (fst (add_main_variation (one_node [1] None) 0 10)) 1 20)"
      and child = 2]
  by (simp add: run_defs is_mate_within_horizon_def)

text \<open>
  C10.  Every pair of a sequence that \<^verbatim>\<open>cook_advantage\<close> returns was probed for the
  favoured colour and has a best score of at least +200 centipawns in the order of scores.
\<close>

theorem cook_advantage_retained:
  "fst (cook_advantage depth env s n w) = Inr (Some solution) \<Longrightarrow>
   \<forall>p \<in> set solution. winner p = w \<and> score_ge (score (best p)) (Cp 200)"
proof (induction depth arbitrary: s n solution)
  case 0
  then show ?case by simp
next
  case (Suc depth)
  show ?case
  proof (cases "get_next_pair env s n w")
    case None
    with Suc.prems show ?thesis by (auto simp: Let_def split: if_splits)
  next
    case (Some pair)
    obtain s1 child where amv: "add_main_variation s n (move (best pair)) = (s1, child)"
      by (cases "add_main_variation s n (move (best pair))")
    obtain r s2 where rec: "cook_advantage depth env s1 child w = (r, s2)"
      by (cases "cook_advantage depth env s1 child w")
    from Suc.prems Some amv rec
    obtain follow_up where ok: "\<not> score_lt (score (best pair)) (Cp 200)"
      and r: "r = Inr (Some follow_up)" and sol: "solution = pair # follow_up"
      by (auto simp: Let_def split: if_splits sum.splits option.splits)
    from Some have "winner pair = w"
      by (auto simp: get_next_pair_def get_next_move_pair_def Let_def split: if_splits)
    moreover from rec r Suc.IH[of s1 child follow_up]
    have "\<forall>p \<in> set follow_up. winner p = w \<and> score_ge (score (best p)) (Cp 200)"
      by simp
    ultimately show ?thesis using ok sol by (simp add: not_score_lt)
  qed
qed

theorem cook_advantage_retained_witness:
  "fst (cook_advantage 10 demo_env (one_node [2] None) 0 False) =
     Inr (Some [\<lparr>node = 0, winner = False, best = \<lparr>move = 30, score = Cp 4000\<rparr>, second = None\<rparr>,
                \<lparr>node = 1, winner = False, best = \<lparr>move = 31, score = Cp 4000\<rparr>, second = None\<rparr>])
   \<and> score_ge (Cp 4000) (Cp 200)"
  using cook_advantage_retained[of 10 demo_env "one_node [2] None" 0 False
      "[\<lparr>node = 0, winner = False, best = \<lparr>move = 30, score = Cp 4000\<rparr>, second = None\<rparr>,
        \<lparr>node = 1, winner = False, best = \<lparr>move = 31, score = Cp 4000\<rparr>, second = None\<rparr>]"]
  by (simp add: run_defs)

section \<open>Cooking and the game tree\<close>

text \<open>A cooker that starts at an address not below \<open>k\<close> writes only to addresses not
  below \<open>k\<close>: it changes the variations of the node it is at and creates a new child, at
  which it goes on.\<close>

lemma add_main_variation_frame:
  "add_main_variation s n mv = (s1, c) \<Longrightarrow> k \<le> store_size s \<Longrightarrow> k \<le> n \<Longrightarrow>
   k \<le> store_size s1 \<and> k \<le> c \<and> (\<forall>a < k. cells s1 a = cells s a)"
  by (auto simp: add_main_variation_def Let_def)

lemma cook_mate_frame:
  "cook_mate depth env s n w = (r, s') \<Longrightarrow> k \<le> store_size s \<Longrightarrow> k \<le> n \<Longrightarrow>
   k \<le> store_size s' \<and> (\<forall>a < k. cells s' a = cells s a)"
proof (induction depth arbitrary: s n r s')
  case 0
  then show ?case by simp
next
  case (Suc depth)
  define pick where "pick = (if turn env (gn_board (cells s n)) = w
               then (case get_next_pair env s n w of
                       None \<Rightarrow> None
                     | Some pair \<Rightarrow>
                         if score_lt (score (best pair)) mate_soon then None
                         else Some (move (best pair)))
               else get_next_move env s n)"
  show ?case
  proof (cases "is_game_over env (gn_board (cells s n)) \<or> pick = None")
    case True
    with Suc.prems have "s' = s" by (auto simp: Let_def pick_def split: if_splits)
    with Suc.prems show ?thesis by simp
  next
    case False
    then obtain mv where mv: "pick = Some mv" by auto
    obtain s1 child where amv: "add_main_variation s n mv = (s1, child)"
      by (cases "add_main_variation s n mv")
    obtain r1 s2 where rec: "cook_mate depth env s1 child w = (r1, s2)"
      by (cases "cook_mate depth env s1 child w")
    from Suc.prems(1) False mv amv rec have "s' = s2"
      by (auto simp: Let_def pick_def[symmetric] split: sum.splits option.splits)
    moreover from add_main_variation_frame[OF amv Suc.prems(2,3)]
    have f1: "k \<le> store_size s1" "k \<le> child" "\<forall>a < k. cells s1 a = cells s a" by auto
    moreover from Suc.IH[OF rec f1(1,2)] have "k \<le> store_size s2" "\<forall>a < k. cells s2 a = cells s1 a"
      by auto
    ultimately show ?thesis by simp
  qed
qed

lemma cook_advantage_frame:
  "cook_advantage depth env s n w = (r, s') \<Longrightarrow> k \<le> store_size s \<Longrightarrow> k \<le> n \<Longrightarrow>
   k \<le> store_size s' \<and> (\<forall>a < k. cells s' a = cells s a)"
proof (induction depth arbitrary: s n r s')
  case 0
  then show ?case by simp
next
  case (Suc depth)
  show ?case
  proof (cases "is_repetition env (gn_board (cells s n)) 2 \<or> get_next_pair env s n w = None
      \<or> (\<exists>pair. get_next_pair env s n w = Some pair \<and> score_lt (score (best pair)) (Cp 200))")
    case True
    with Suc.prems have "s' = s" by (auto simp: Let_def split: if_splits)
    with Suc.prems show ?thesis by simp
  next
    case False
    then obtain pair where pair: "get_next_pair env s n w = Some pair"
      and ok: "\<not> score_lt (score (best pair)) (Cp 200)" and nr: "\<not> is_repetition env (gn_board (cells s n)) 2" by auto
    obtain s1 child where amv: "add_main_variation s n (move (best pair)) = (s1, child)"
      by (cases "add_main_variation s n (move (best pair))")
    obtain r1 s2 where rec: "cook_advantage depth env s1 child w = (r1, s2)"
      by (cases "cook_advantage depth env s1 child w")
    from Suc.prems(1) pair ok nr amv rec have "s' = s2"
      by (auto simp: Let_def split: sum.splits option.splits)
    moreover from add_main_variation_frame[OF amv Suc.prems(2,3)]
    have f1: "k \<le> store_size s1" "k \<le> child" "\<forall>a < k. cells s1 a = cells s a" by auto
    moreover from Suc.IH[OF rec f1(1,2)] have "k \<le> store_size s2" "\<forall>a < k. cells s2 a = cells s1 a"
      by auto
    ultimately show ?thesis by simp
  qed
qed

lemma deepcopy_frame:
  "deepcopy s n = (s1, c) \<Longrightarrow>
   store_size s \<le> store_size s1 \<and> store_size s \<le> c \<and> (\<forall>a < store_size s. cells s1 a = cells s a)"
  by (auto simp: deepcopy_def Let_def)

lemma analyze_position_store:
  assumes "analyze_position depth env tier s sv n prev cur = (r, s', sv')"
  shows "s' = s \<or>
    (\<exists>w r'. cook_mate depth env (fst (deepcopy s n)) (snd (deepcopy s n)) w = (r', s')) \<or>
    (\<exists>w r'. cook_advantage depth env (fst (deepcopy s n)) (snd (deepcopy s n)) w = (r', s'))"
proof -
  obtain s1 c where dc: "deepcopy s n = (s1, c)" by (cases "deepcopy s n")
  obtain rm sm where cm: "cook_mate depth env s1 c (turn env (gn_board (cells s n))) = (rm, sm)"
    by (cases "cook_mate depth env s1 c (turn env (gn_board (cells s n)))")
  obtain ra sa where ca: "cook_advantage depth env s1 c (turn env (gn_board (cells s n))) = (ra, sa)"
    by (cases "cook_advantage depth env s1 c (turn env (gn_board (cells s n)))")
  from assms have "s' = s \<or> s' = sm \<or> s' = sa"
    by (simp add: analyze_position_def Let_def dc cm ca
        split: if_splits sum.splits option.splits list.splits)
  with dc cm ca show ?thesis by auto
qed

lemma analyze_position_frame:
  assumes "analyze_position depth env tier s sv n prev cur = (r, s', sv')"
  shows "store_size s \<le> store_size s' \<and> (\<forall>a < store_size s. cells s' a = cells s a)"
proof -
  obtain s1 c where dc: "deepcopy s n = (s1, c)" by (cases "deepcopy s n")
  from deepcopy_frame[OF dc]
  have d: "store_size s \<le> store_size s1" "store_size s \<le> c" "\<forall>a < store_size s. cells s1 a = cells s a"
    by auto
  from analyze_position_store[OF assms] dc
  consider "s' = s" | w r' where "cook_mate depth env s1 c w = (r', s')"
    | w r' where "cook_advantage depth env s1 c w = (r', s')" by auto
  then show ?thesis
  proof cases
    case 1 then show ?thesis by simp
  next
    case 2
    from cook_mate_frame[OF 2 d(1,2)] d(3) show ?thesis by simp
  next
    case 3
    from cook_advantage_frame[OF 3 d(1,2)] d(3) show ?thesis by simp
  qed
qed

lemma analyze_loop_frame:
  "analyze_loop depth env tier st s sv ns = (r, s', sv') \<Longrightarrow>
   store_size s \<le> store_size s' \<and> (\<forall>a < store_size s. cells s' a = cells s a)"
proof (induction ns arbitrary: st s sv)
  case Nil
  then show ?case by simp
next
  case (Cons n ns)
  define P where "P \<longleftrightarrow> store_size s \<le> store_size s' \<and> (\<forall>a < store_size s. cells s' a = cells s a)"
  have same: "\<And>st1. analyze_loop depth env tier st1 s sv ns = (r, s', sv') \<Longrightarrow> P"
    unfolding P_def using Cons.IH by blast
  have later: "\<And>p x s1 sv1. analyze_position depth env tier s sv n p x = (Inr (IsScore y), s1, sv1)
      \<Longrightarrow> analyze_loop depth env tier st2 s1 sv1 ns = (r, s', sv') \<Longrightarrow> P" for y st2
  proof -
    fix p x s1 sv1
    assume ap: "analyze_position depth env tier s sv n p x = (Inr (IsScore y), s1, sv1)"
      and lp: "analyze_loop depth env tier st2 s1 sv1 ns = (r, s', sv')"
    from analyze_position_frame[OF ap] Cons.IH[OF lp] show P unfolding P_def by auto
  qed
  have stop: "\<And>p x e. analyze_position depth env tier s sv n p x = (e, s', sv') \<Longrightarrow> P"
    unfolding P_def by (rule analyze_position_frame)
  have here: "s' = s \<Longrightarrow> P"
    unfolding P_def by simp
  from Cons.prems have P
    by (auto simp: Let_def split: if_splits option.splits prod.splits sum.splits analysis.splits
        intro: same later stop here)
  then show ?case unfolding P_def .
qed

text \<open>
  C9.  Both cookers are started by \<^verbatim>\<open>analyze_position\<close> on a deep copy of the node, and
  whatever they return (a sequence, a failure after some moves were added, an exception)
  every node that existed before the copy is as it was: after the cooker, after
  \<^verbatim>\<open>analyze_position\<close>, and after the whole scan of \<^verbatim>\<open>analyze_game\<close>, whose own board
  and variables no cooker can reach.
\<close>

theorem cooking_leaves_game_tree:
  "game_tree_unchanged s
     (snd (cook_mate depth env (fst (deepcopy s n)) (snd (deepcopy s n)) w)) \<and>
   game_tree_unchanged s
     (snd (cook_advantage depth env (fst (deepcopy s n)) (snd (deepcopy s n)) w)) \<and>
   game_tree_unchanged s
     (fst (snd (analyze_position depth env tier s sv n prev current_eval))) \<and>
   game_tree_unchanged s (fst (snd (analyze_game depth env tier s sv game)))"
proof -
  obtain s1 c where dc: "deepcopy s n = (s1, c)" by (cases "deepcopy s n")
  from deepcopy_frame[OF dc]
  have d: "store_size s \<le> store_size s1" "store_size s \<le> c"
    "\<forall>a < store_size s. cells s1 a = cells s a" by auto
  obtain rm sm where cm: "cook_mate depth env s1 c w = (rm, sm)"
    by (cases "cook_mate depth env s1 c w")
  obtain ra sa where ca: "cook_advantage depth env s1 c w = (ra, sa)"
    by (cases "cook_advantage depth env s1 c w")
  obtain rp sp svp where ap:
    "analyze_position depth env tier s sv n prev current_eval = (rp, sp, svp)"
    by (cases "analyze_position depth env tier s sv n prev current_eval")
  obtain rg sg svg where ag: "analyze_game depth env tier s sv game = (rg, sg, svg)"
    by (cases "analyze_game depth env tier s sv game")
  from cook_mate_frame[OF cm d(1,2)] d(3) have "game_tree_unchanged s sm"
    by (simp add: game_tree_unchanged_def)
  moreover from cook_advantage_frame[OF ca d(1,2)] d(3) have "game_tree_unchanged s sa"
    by (simp add: game_tree_unchanged_def)
  moreover from analyze_position_frame[OF ap] have "game_tree_unchanged s sp"
    by (simp add: game_tree_unchanged_def)
  moreover from analyze_loop_frame[OF ag[unfolded analyze_game_def]]
  have "game_tree_unchanged s sg"
    by (simp add: game_tree_unchanged_def)
  ultimately show ?thesis by (simp add: dc cm ca ap ag)
qed

text \<open>The mate in two after move 1 is cooked into a puzzle, and the one node of the store
  is as before.  Cooked in place, without the copy, the node would have got a child.\<close>

theorem cooking_leaves_game_tree_witness:
  "fst (analyze_position 10 demo_env 10 (one_node [1] None) 0 0 (Cp 20)
          \<lparr>relative = Mate 2, pov_turn = False\<rparr>) =
     Inr (IsPuzzle \<lparr>puzzle_node = 0, puzzle_moves = [10, 20, 99], puzzle_cp = 999999999\<rparr>) \<and>
   cells (fst (snd (analyze_position 10 demo_env 10 (one_node [1] None) 0 0 (Cp 20)
          \<lparr>relative = Mate 2, pov_turn = False\<rparr>))) 0 = cells (one_node [1] None) 0 \<and>
   gn_variations (cells (snd (cook_mate 10 demo_env (one_node [1] None) 0 False)) 0) = [1]"
  using cooking_leaves_game_tree[of "one_node [1] None" 10 demo_env 0 False 10 0 "Cp 20"
      "\<lparr>relative = Mate 2, pov_turn = False\<rparr>" "[]"]
  by (simp add: game_tree_unchanged_def run_defs)

end
